theory Spec2Isabelle
  imports Complex_Main
begin

section \<open>Momentum conservation loss: the numeric model\<close>

text \<open>
  The module \<^verbatim>\<open>model/physics_constraints.py\<close> works on torch tensors of floats.
  The tensor functions are modelled in exact arithmetic on real numbers: the entries are
  finite, and no operation rounds or overflows. The model agrees with the code, up to
  rounding, on the calls in which no floating-point operation overflows; on a call in
  which a sum overflows the code computes with \<^verbatim>\<open>inf\<close> and the model does not, and a
  theorem that asserts a finite value names that condition (\<open>float_safe\<close> below). One
  non-finite value is kept, because the code produces it without any overflow:
  \<^verbatim>\<open>NaN\<close>, the mean of a tensor with no element (\<open>0 / 0\<close>). HOL's \<open>0 / 0 = 0\<close> would
  hide it.
\<close>

datatype fscalar = Num real | NaN

fun fadd :: "fscalar \<Rightarrow> fscalar \<Rightarrow> fscalar" where
  "fadd (Num a) (Num b) = Num (a + b)"
| "fadd _ _ = NaN"

fun fmul :: "fscalar \<Rightarrow> fscalar \<Rightarrow> fscalar" where
  "fmul (Num a) (Num b) = Num (a * b)"
| "fmul _ _ = NaN"

text \<open>\<^verbatim>\<open>torch.clamp(x, max=c)\<close>: the smaller of \<open>x\<close> and \<open>c\<close>; NaN stays NaN.\<close>

fun clamp_max :: "fscalar \<Rightarrow> real \<Rightarrow> fscalar" where
  "clamp_max (Num a) c = Num (min a c)"
| "clamp_max NaN c = NaN"

text \<open>The comparisons \<^verbatim>\<open><=\<close> and \<^verbatim>\<open>==\<close> of floats: false as soon as one side is NaN.\<close>

fun fle :: "fscalar \<Rightarrow> fscalar \<Rightarrow> bool" where
  "fle (Num a) (Num b) = (a \<le> b)"
| "fle _ _ = False"

fun feq :: "fscalar \<Rightarrow> fscalar \<Rightarrow> bool" where
  "feq (Num a) (Num b) = (a = b)"
| "feq _ _ = False"

text \<open>
  The two float types of the tensors, and the least magnitude that rounds to infinity
  in each: half a unit in the last place above the largest finite value (\<open>2\<^sup>1\<^sup>2\<^sup>8 - 2\<^sup>1\<^sup>0\<^sup>4\<close>
  and \<open>2\<^sup>1\<^sup>0\<^sup>2\<^sup>4 - 2\<^sup>9\<^sup>7\<^sup>1\<close>). Python's float is \<open>Float64\<close>.
\<close>

datatype dtype = Float32 | Float64

definition overflow_threshold :: "dtype \<Rightarrow> real" where
  "overflow_threshold dt =
     (case dt of Float32 \<Rightarrow> 2 ^ 128 - 2 ^ 103 | Float64 \<Rightarrow> 2 ^ 1024 - 2 ^ 970)"

definition in_range :: "dtype \<Rightarrow> real \<Rightarrow> bool" where
  "in_range dt x = (\<bar>x\<bar> < overflow_threshold dt)"

subsection \<open>Tensors\<close>

text \<open>
  A velocity is a row of three floats. The last axis of every velocity and momentum tensor
  has size 3, so it is carried by the type.
\<close>

type_synonym vec3 = "real \<times> real \<times> real"

definition vzero :: vec3 where
  "vzero = (0, 0, 0)"

fun vadd :: "vec3 \<Rightarrow> vec3 \<Rightarrow> vec3" where
  "vadd (a, b, c) (x, y, z) = (a + x, b + y, c + z)"

fun vsub :: "vec3 \<Rightarrow> vec3 \<Rightarrow> vec3" where
  "vsub (a, b, c) (x, y, z) = (a - x, b - y, c - z)"

text \<open>\<open>scale v m\<close> is the row \<open>v\<close> times the mass \<open>m\<close> broadcast over the last axis.\<close>

fun scale :: "vec3 \<Rightarrow> real \<Rightarrow> vec3" where
  "scale (x, y, z) m = (x * m, y * m, z * m)"

text \<open>\<^verbatim>\<open>(p ** 2).sum(dim=-1)\<close> on one row.\<close>

fun sumsq :: "vec3 \<Rightarrow> real" where
  "sumsq (x, y, z) = x ^ 2 + y ^ 2 + z ^ 2"

text \<open>The sum of a sequence of rows; the sum of no row is the zero row, as in torch.\<close>

fun vsum :: "vec3 list \<Rightarrow> vec3" where
  "vsum [] = vzero"
| "vsum (v # vs) = vadd v (vsum vs)"

text \<open>
  The tensors the functions receive, by number of axes. An axis of size 0 is legal in
  torch and its neighbours keep their sizes, so a tensor with two leading axes is its
  two sizes and an indexing function, read only below the sizes; a tensor with one
  leading axis is a list.
  \<^item> \<open>Vel2 vs\<close>: velocities of shape \<open>(length vs, 3)\<close>;
  \<^item> \<open>Vel3 b n v\<close>: velocities of shape \<open>(b, n, 3)\<close>, row \<open>v i j\<close> for \<open>i < b\<close>, \<open>j < n\<close>;
  \<^item> \<open>Mass1 ms\<close>: masses of shape \<open>(length ms)\<close>;
  \<^item> \<open>Mass2 r c m\<close>: masses of shape \<open>(r, c)\<close>, entry \<open>m i j\<close>;
  \<^item> \<open>T0 x\<close>: a result without leading axis (\<open>[3]\<close> for a momentum, \<open>[]\<close> for a loss);
  \<^item> \<open>T1 xs\<close>: a result with one leading axis (\<open>[k, 3]\<close> or \<open>[k]\<close>).
\<close>

datatype vel_tensor = Vel2 "vec3 list" | Vel3 nat nat "nat \<Rightarrow> nat \<Rightarrow> vec3"

datatype mass_tensor = Mass1 "real list" | Mass2 nat nat "nat \<Rightarrow> nat \<Rightarrow> real"

datatype 'a tensor = T0 'a | T1 "'a list"

text \<open>
  torch raises \<^verbatim>\<open>RuntimeError\<close> when a reshape or a broadcast does not fit; the
  specification calls both \<^verbatim>\<open>ShapeMismatch\<close>. The operation that failed is kept.
\<close>

datatype shape_op = Reshape | Broadcast

datatype error = ShapeMismatch shape_op

subsubsection \<open>Broadcasting\<close>

text \<open>
  Two axes of sizes \<open>x\<close> and \<open>y\<close> broadcast to one axis when they are equal or one of
  them is 1; along an axis of size 1 the only entry is read at every index.
\<close>

definition bdim :: "nat \<Rightarrow> nat \<Rightarrow> nat option" where
  "bdim x y = (if x = y then Some x else if x = 1 then Some y else if y = 1 then Some x else None)"

definition bidx :: "nat \<Rightarrow> nat \<Rightarrow> nat" where
  "bidx d i = (if d = 1 then 0 else i)"

text \<open>
  \<^verbatim>\<open>vel * masses.unsqueeze(-1)\<close> for velocities of shape \<open>(b, n, 3)\<close> and masses
  of shape \<open>(r, c)\<close>, which \<^verbatim>\<open>unsqueeze(-1)\<close> turns into \<open>(r, c, 1)\<close>.
\<close>

definition mul_unsqueeze ::
  "nat \<Rightarrow> nat \<Rightarrow> (nat \<Rightarrow> nat \<Rightarrow> vec3) \<Rightarrow> nat \<Rightarrow> nat \<Rightarrow> (nat \<Rightarrow> nat \<Rightarrow> real)
     \<Rightarrow> error + (nat \<times> nat \<times> (nat \<Rightarrow> nat \<Rightarrow> vec3))" where
  "mul_unsqueeze b n v r c m =
     (case bdim b r of
        None \<Rightarrow> Inl (ShapeMismatch Broadcast)
      | Some d0 \<Rightarrow>
          (case bdim n c of
             None \<Rightarrow> Inl (ShapeMismatch Broadcast)
           | Some d1 \<Rightarrow>
               Inr (d0, d1, \<lambda>i j. scale (v (bidx b i) (bidx n j)) (m (bidx r i) (bidx c j)))))"

text \<open>\<^verbatim>\<open>t.sum(dim=1)\<close> and \<^verbatim>\<open>t.sum(dim=0)\<close> of a tensor of shape \<open>(d0, d1, 3)\<close>.\<close>

definition sum_dim1 :: "nat \<Rightarrow> nat \<Rightarrow> (nat \<Rightarrow> nat \<Rightarrow> vec3) \<Rightarrow> vec3 list" where
  "sum_dim1 d0 d1 t = map (\<lambda>i. vsum (map (\<lambda>j. t i j) [0..<d1])) [0..<d0]"

definition sum_dim0 :: "nat \<Rightarrow> nat \<Rightarrow> (nat \<Rightarrow> nat \<Rightarrow> vec3) \<Rightarrow> vec3 list" where
  "sum_dim0 d0 d1 t = map (\<lambda>j. vsum (map (\<lambda>i. t i j) [0..<d0])) [0..<d1]"

text \<open>
  An elementwise binary operation on two results with at most one leading axis, with
  broadcasting: a result without leading axis is read at every index.
\<close>

definition bzip :: "('a \<Rightarrow> 'b \<Rightarrow> 'c) \<Rightarrow> 'a tensor \<Rightarrow> 'b tensor \<Rightarrow> error + 'c tensor" where
  "bzip f s t =
     (case (s, t) of
        (T0 x, T0 y) \<Rightarrow> Inr (T0 (f x y))
      | (T0 x, T1 ys) \<Rightarrow> Inr (T1 (map (f x) ys))
      | (T1 xs, T0 y) \<Rightarrow> Inr (T1 (map (\<lambda>x. f x y) xs))
      | (T1 xs, T1 ys) \<Rightarrow>
          (if length xs = length ys then Inr (T1 (map2 f xs ys))
           else if length xs = 1 then Inr (T1 (map (f (hd xs)) ys))
           else if length ys = 1 then Inr (T1 (map (\<lambda>x. f x (hd ys)) xs))
           else Inl (ShapeMismatch Broadcast)))"

fun tmap :: "('a \<Rightarrow> 'b) \<Rightarrow> 'a tensor \<Rightarrow> 'b tensor" where
  "tmap f (T0 x) = T0 (f x)"
| "tmap f (T1 xs) = T1 (map f xs)"

text \<open>
  \<^verbatim>\<open>t.mean()\<close>: the sum of all entries over their number; NaN when there is no entry.
\<close>

fun mean :: "real tensor \<Rightarrow> fscalar" where
  "mean (T0 x) = Num x"
| "mean (T1 xs) = (if xs = [] then NaN else Num (sum_list xs / real (length xs)))"

subsubsection \<open>Reshaping\<close>

text \<open>
  \<^verbatim>\<open>vel.view(batch_size, n_nodes, 3)\<close> on a contiguous tensor of shape
  \<open>(length vel, 3)\<close>, so of \<open>3 * length vel\<close> entries. The two sizes are Python ints.
  torch refuses a size below \<open>-1\<close> and two sizes \<open>-1\<close>; one size \<open>-1\<close> is inferred from
  the number of entries, when the product of the other sizes is positive and divides
  it; without \<open>-1\<close> the product of the sizes must be the number of entries. The entries
  keep their row-major order.
\<close>

definition view3 :: "vec3 list \<Rightarrow> int \<Rightarrow> int \<Rightarrow> error + vel_tensor" where
  "view3 vel batch_size n_nodes =
     (let numel = 3 * int (length vel) in
      if batch_size < - 1 \<or> n_nodes < - 1 then Inl (ShapeMismatch Reshape)
      else if batch_size = - 1 \<and> n_nodes = - 1 then Inl (ShapeMismatch Reshape)
      else if batch_size = - 1 then
        (if 0 < n_nodes * 3 \<and> numel mod (n_nodes * 3) = 0
         then Inr (Vel3 (nat (numel div (n_nodes * 3))) (nat n_nodes)
                     (\<lambda>i j. vel ! (i * nat n_nodes + j)))
         else Inl (ShapeMismatch Reshape))
      else if n_nodes = - 1 then
        (if 0 < batch_size * 3 \<and> numel mod (batch_size * 3) = 0
         then Inr (Vel3 (nat batch_size) (nat (numel div (batch_size * 3)))
                     (\<lambda>i j. vel ! (i * nat (numel div (batch_size * 3)) + j)))
         else Inl (ShapeMismatch Reshape))
      else if numel = batch_size * n_nodes * 3
        then Inr (Vel3 (nat batch_size) (nat n_nodes) (\<lambda>i j. vel ! (i * nat n_nodes + j)))
        else Inl (ShapeMismatch Reshape))"

subsection \<open>Momentum computation\<close>

text \<open>
  \<^verbatim>\<open>compute_linear_momentum(vel, masses=None)\<close>. The branch \<^verbatim>\<open>vel.dim() == 3\<close>
  sums over axis 1, the other branch over axis 0. Masses with one axis \<open>(k)\<close> become
  \<open>(k, 1)\<close> and broadcast from the right: against \<open>(b, n, 3)\<close> as \<open>(1, k, 1)\<close>. Velocities
  \<open>(n, 3)\<close> broadcast against masses \<open>(r, c, 1)\<close> as \<open>(1, n, 3)\<close>; the product has three
  axes and its sum over axis 0 keeps one leading axis.
\<close>

definition compute_linear_momentum ::
  "vel_tensor \<Rightarrow> mass_tensor option \<Rightarrow> error + vec3 tensor" where
  "compute_linear_momentum vel masses =
     (case vel of
        Vel3 b n v \<Rightarrow>
          (case masses of
             Some (Mass2 r c m) \<Rightarrow>
               (case mul_unsqueeze b n v r c m of
                  Inl e \<Rightarrow> Inl e
                | Inr (d0, d1, t) \<Rightarrow> Inr (T1 (sum_dim1 d0 d1 t)))
           | Some (Mass1 ms) \<Rightarrow>
               (case mul_unsqueeze b n v 1 (length ms) (\<lambda>i j. ms ! j) of
                  Inl e \<Rightarrow> Inl e
                | Inr (d0, d1, t) \<Rightarrow> Inr (T1 (sum_dim1 d0 d1 t)))
           | None \<Rightarrow> Inr (T1 (sum_dim1 b n v)))
      | Vel2 vs \<Rightarrow>
          (case masses of
             Some (Mass2 r c m) \<Rightarrow>
               (case mul_unsqueeze 1 (length vs) (\<lambda>i j. vs ! j) r c m of
                  Inl e \<Rightarrow> Inl e
                | Inr (d0, d1, t) \<Rightarrow> Inr (T1 (sum_dim0 d0 d1 t)))
           | Some (Mass1 ms) \<Rightarrow>
               (case mul_unsqueeze 1 (length vs) (\<lambda>i j. vs ! j) 1 (length ms) (\<lambda>i j. ms ! j) of
                  Inl e \<Rightarrow> Inl e
                | Inr (d0, d1, t) \<Rightarrow> Inr (T0 (vsum (map (\<lambda>j. t 0 j) [0..<d1]))))
           | None \<Rightarrow> Inr (T0 (vsum vs))))"

text \<open>
  \<^verbatim>\<open>compute_linear_momentum_batched(vel, n_nodes, batch_size, masses=None)\<close>:
  no handler around the reshape, so its error reaches the caller.
\<close>

definition compute_linear_momentum_batched ::
  "vec3 list \<Rightarrow> int \<Rightarrow> int \<Rightarrow> mass_tensor option \<Rightarrow> error + vec3 tensor" where
  "compute_linear_momentum_batched vel n_nodes batch_size masses =
     (case view3 vel batch_size n_nodes of
        Inl e \<Rightarrow> Inl e
      | Inr vel_batched \<Rightarrow> compute_linear_momentum vel_batched masses)"

subsection \<open>Momentum conservation loss\<close>

text \<open>
  \<^verbatim>\<open>momentum_conservation_loss(vel_init, vel_pred, n_nodes, batch_size, masses=None)\<close>.
  \<^verbatim>\<open>clamp(min=1e-6)\<close> is the larger of the entry and \<open>10\<^sup>-\<^sup>6\<close>.
\<close>

definition momentum_conservation_loss ::
  "vec3 list \<Rightarrow> vec3 list \<Rightarrow> int \<Rightarrow> int \<Rightarrow> mass_tensor option \<Rightarrow> error + fscalar" where
  "momentum_conservation_loss vel_init vel_pred n_nodes batch_size masses =
     (case compute_linear_momentum_batched vel_init n_nodes batch_size masses of
        Inl e \<Rightarrow> Inl e
      | Inr P_init \<Rightarrow>
     (case compute_linear_momentum_batched vel_pred n_nodes batch_size masses of
        Inl e \<Rightarrow> Inl e
      | Inr P_pred \<Rightarrow>
     (case bzip vsub P_pred P_init of
        Inl e \<Rightarrow> Inl e
      | Inr diff \<Rightarrow>
     (let loss = tmap sumsq diff;
          P_init_norm = tmap (\<lambda>p. max (sumsq p) (1 / 10 ^ 6)) P_init
      in case bzip (\<lambda>l d. l / d) loss P_init_norm of
           Inl e \<Rightarrow> Inl e
         | Inr loss' \<Rightarrow> Inr (mean loss')))))"

subsection \<open>The stateful wrapper \<^verbatim>\<open>PhysicsInformedLoss\<close>: fields and warmup\<close>

record PhysicsInformedLoss =
  lambda_momentum :: real
  warmup_epochs :: int
  max_physics_loss :: real
  current_epoch :: int

definition init :: "real \<Rightarrow> int \<Rightarrow> real \<Rightarrow> PhysicsInformedLoss" where
  "init lam w m =
     \<lparr>lambda_momentum = lam, warmup_epochs = w, max_physics_loss = m, current_epoch = 0\<rparr>"

definition set_epoch :: "PhysicsInformedLoss \<Rightarrow> int \<Rightarrow> PhysicsInformedLoss" where
  "set_epoch self epoch = self\<lparr>current_epoch := epoch\<rparr>"

text \<open>
  Python's \<^verbatim>\<open>/\<close> on two ints is true division: it raises
  \<^verbatim>\<open>ZeroDivisionError\<close> on a divisor 0, raises \<^verbatim>\<open>OverflowError\<close> when the quotient
  is too large for a float, which is when its magnitude reaches the overflow threshold
  of \<open>Float64\<close>, and returns the quotient as a float otherwise. In
  \<^verbatim>\<open>get_warmup_factor\<close> the guard before the division keeps the divisor positive.
  The exceptions of the wrapper are torch's \<^verbatim>\<open>RuntimeError\<close> and these.
\<close>

datatype exception = RuntimeError error | ZeroDivisionError | OverflowError

definition true_div :: "int \<Rightarrow> int \<Rightarrow> exception + real" where
  "true_div a b =
     (if b = 0 then Inl ZeroDivisionError
      else if in_range Float64 (real_of_int a / real_of_int b)
      then Inr (real_of_int a / real_of_int b)
      else Inl OverflowError)"

definition get_warmup_factor :: "PhysicsInformedLoss \<Rightarrow> exception + real" where
  "get_warmup_factor self =
     (if warmup_epochs self \<le> 0 then Inr 1
      else (case true_div (current_epoch self) (warmup_epochs self) of
              Inl e \<Rightarrow> Inl e
            | Inr q \<Rightarrow> Inr (min 1 q)))"

text \<open>
  \<^verbatim>\<open>compute_physics_losses\<close> returns the total and the dict \<^verbatim>\<open>losses\<close>. The total
  is the Python float \<open>0.0\<close> or a tensor without axis; \<^verbatim>\<open>.item()\<close> reads the number
  of such a tensor. \<^verbatim>\<open>get_warmup_factor()\<close> is called before the test of
  \<^verbatim>\<open>lambda_momentum\<close>; no exception is handled.
\<close>

definition compute_physics_losses ::
  "PhysicsInformedLoss \<Rightarrow> vec3 list \<Rightarrow> vec3 list \<Rightarrow> int \<Rightarrow> int \<Rightarrow> mass_tensor option
     \<Rightarrow> exception + (fscalar \<times> (string \<rightharpoonup> fscalar))" where
  "compute_physics_losses self vel_init vel_pred n_nodes batch_size masses =
     (let losses = Map.empty;
          total_physics_loss = Num 0
      in case get_warmup_factor self of
           Inl e \<Rightarrow> Inl e
         | Inr warmup_factor \<Rightarrow>
      if lambda_momentum self > 0 then
           (case momentum_conservation_loss vel_init vel_pred n_nodes batch_size masses of
              Inl e \<Rightarrow> Inl (RuntimeError e)
            | Inr momentum_loss \<Rightarrow>
                (let momentum_loss_clamped =
                       clamp_max momentum_loss
                         (max_physics_loss self / max (lambda_momentum self) (1 / 10 ^ 6));
                     losses = losses(''momentum'' \<mapsto> momentum_loss);
                     losses = losses(''momentum_clamped'' \<mapsto> momentum_loss_clamped);
                     total_physics_loss =
                       fadd total_physics_loss
                         (fmul (fmul (Num (lambda_momentum self)) momentum_loss_clamped)
                            (Num warmup_factor));
                     losses = losses(''total_physics'' \<mapsto> total_physics_loss);
                     losses = losses(''warmup_factor'' \<mapsto> Num warmup_factor)
                 in Inr (total_physics_loss, losses)))
         else
           (let losses = losses(''total_physics'' \<mapsto> total_physics_loss);
                losses = losses(''warmup_factor'' \<mapsto> Num warmup_factor)
            in Inr (total_physics_loss, losses)))"

section \<open>The formulas of the specification\<close>

text \<open>
  Masses that give one mass to each particle of a batch of \<open>b\<close> samples of \<open>n\<close>
  particles: none (unit mass), or masses whose broadcast against \<open>(b, n, 3)\<close> keeps
  the shape: of shape \<open>(n)\<close> or \<open>(1)\<close>, or of shape \<open>(r, c)\<close> with \<open>r\<close> equal to \<open>b\<close> or
  1 and \<open>c\<close> equal to \<open>n\<close> or 1. \<open>mass_of\<close> is then the mass of particle \<open>j\<close> of sample
  \<open>i\<close>: an axis of size 1 gives its only entry to every index.
\<close>

definition masses_per_particle :: "nat \<Rightarrow> nat \<Rightarrow> mass_tensor option \<Rightarrow> bool" where
  "masses_per_particle b n masses =
     (case masses of
        None \<Rightarrow> True
      | Some (Mass1 ms) \<Rightarrow> length ms = n \<or> length ms = 1
      | Some (Mass2 r c m) \<Rightarrow> (r = b \<or> r = 1) \<and> (c = n \<or> c = 1))"

definition mass_of :: "mass_tensor option \<Rightarrow> nat \<Rightarrow> nat \<Rightarrow> real" where
  "mass_of masses i j =
     (case masses of
        None \<Rightarrow> 1
      | Some (Mass1 ms) \<Rightarrow> ms ! (if length ms = 1 then 0 else j)
      | Some (Mass2 r c m) \<Rightarrow> m (if r = 1 then 0 else i) (if c = 1 then 0 else j))"

text \<open>
  The loss in the words of the specification, by indices instead of tensor operations:
  component \<open>k\<close> of a row, the momentum of sample \<open>i\<close> as the mass-weighted sum of the
  velocities of its \<open>n\<close> particles (rows \<open>i * n\<close> to \<open>i * n + n - 1\<close> of the flat
  array), the squared deviation of the predicted from the initial momentum over the 3
  components divided by \<open>max(sum(P_init\<^sup>2), 10\<^sup>-\<^sup>6)\<close>, and the mean of that over the \<open>b\<close>
  samples. The mean of no sample is \<open>0 / 0\<close>, NaN in floating point.
\<close>

definition component :: "nat \<Rightarrow> vec3 \<Rightarrow> real" where
  "component k p = (case p of (x, y, z) \<Rightarrow> if k = 0 then x else if k = 1 then y else z)"

definition spec_momentum ::
  "(nat \<Rightarrow> nat \<Rightarrow> real) \<Rightarrow> vec3 list \<Rightarrow> nat \<Rightarrow> nat \<Rightarrow> nat \<Rightarrow> real" where
  "spec_momentum mass vel n i k = (\<Sum>j<n. mass i j * component k (vel ! (i * n + j)))"

definition spec_sample_loss ::
  "(nat \<Rightarrow> nat \<Rightarrow> real) \<Rightarrow> vec3 list \<Rightarrow> vec3 list \<Rightarrow> nat \<Rightarrow> nat \<Rightarrow> real" where
  "spec_sample_loss mass vel_init vel_pred n i =
     (\<Sum>k<3. (spec_momentum mass vel_pred n i k - spec_momentum mass vel_init n i k) ^ 2)
       / max (\<Sum>k<3. (spec_momentum mass vel_init n i k) ^ 2) (1 / 10 ^ 6)"

definition spec_loss ::
  "(nat \<Rightarrow> nat \<Rightarrow> real) \<Rightarrow> vec3 list \<Rightarrow> vec3 list \<Rightarrow> nat \<Rightarrow> nat \<Rightarrow> fscalar" where
  "spec_loss mass vel_init vel_pred n b =
     (if b = 0 then NaN
      else Num ((\<Sum>i<b. spec_sample_loss mass vel_init vel_pred n i) / real b))"

text \<open>
  Masses that broadcast against velocities of shape \<open>(b, n, 3)\<close>: none, or of shape
  \<open>(k)\<close> with \<open>k\<close> and \<open>n\<close> equal or one of them 1, or of shape \<open>(r, c)\<close> with the same
  for \<open>r\<close> and \<open>b\<close> and for \<open>c\<close> and \<open>n\<close>.
\<close>

definition masses_fit :: "nat \<Rightarrow> nat \<Rightarrow> mass_tensor option \<Rightarrow> bool" where
  "masses_fit b n masses =
     (case masses of
        None \<Rightarrow> True
      | Some (Mass1 ms) \<Rightarrow> length ms = n \<or> length ms = 1 \<or> n = 1
      | Some (Mass2 r c m) \<Rightarrow> (r = b \<or> r = 1 \<or> b = 1) \<and> (c = n \<or> c = 1 \<or> n = 1))"

text \<open>
  The row that the tensor operations compute for sample \<open>i\<close> of a flat array, when
  particle \<open>j\<close> of sample \<open>i\<close> has mass \<open>mass i j\<close>.
\<close>

definition weighted_sums :: "(nat \<Rightarrow> nat \<Rightarrow> real) \<Rightarrow> vec3 list \<Rightarrow> nat \<Rightarrow> nat \<Rightarrow> vec3" where
  "weighted_sums mass vel n i =
     vsum (map (\<lambda>j. scale (vel ! (i * n + j)) (mass i j)) [0..<n])"

subsection \<open>Calls without floating-point overflow\<close>







section \<open>Properties of the wrapper\<close>

lemma fadd_zero: "fadd (Num 0) x = x"
  by (cases x) simp_all

lemmas eval_defs =
  momentum_conservation_loss_def compute_linear_momentum_batched_def
  compute_linear_momentum_def view3_def mul_unsqueeze_def bdim_def bidx_def sum_dim1_def
  sum_dim0_def bzip_def vzero_def Let_def upt_rec

lemmas warmup_defs =
  get_warmup_factor_def true_div_def in_range_def overflow_threshold_def set_epoch_def init_def

text \<open>
  Claim C4: the code at two inputs where it leaves what the claim and the docstring
  \<^verbatim>\<open>"Get the warmup scaling factor (0 to 1)."\<close> state. \<^verbatim>\<open>set_epoch\<close> stores any
  integer. With \<^verbatim>\<open>warmup_epochs = 2\<close>, after \<^verbatim>\<open>set_epoch(-1)\<close>, the factor is \<open>-1/2\<close>,
  below 0. With \<^verbatim>\<open>warmup_epochs = 1\<close>, after \<^verbatim>\<open>set_epoch(10**309)\<close>, the epoch has
  reached \<^verbatim>\<open>warmup_epochs\<close> and the call raises \<^verbatim>\<open>OverflowError\<close> in the division
  instead of returning 1.
\<close>

theorem get_warmup_factor_outside_unit_interval:
  "get_warmup_factor (set_epoch (init (1 / 10) 2 10) (- 1)) = Inr (- 1 / 2)
   \<and> get_warmup_factor (set_epoch (init (1 / 10) 1 10) (10 ^ 309)) = Inl OverflowError"
  by (simp add: warmup_defs)

text \<open>
  Claim C5. When \<^verbatim>\<open>lambda_momentum <= 0\<close>, whatever the tensors are: every total that
  \<^verbatim>\<open>compute_physics_losses\<close> returns is exactly \<open>0.0\<close> and the keys of every breakdown
  it returns are \<^verbatim>\<open>total_physics\<close> and \<^verbatim>\<open>warmup_factor\<close> only; it returns whenever
  \<^verbatim>\<open>get_warmup_factor()\<close> returns, and raises what \<^verbatim>\<open>get_warmup_factor()\<close> raises.
\<close>

theorem compute_physics_losses_disabled:
  assumes "lambda_momentum self \<le> 0"
  shows "(\<forall>total_physics_loss losses.
            compute_physics_losses self vel_init vel_pred n_nodes batch_size masses
              = Inr (total_physics_loss, losses)
            \<longrightarrow> total_physics_loss = Num 0
              \<and> dom losses = {''total_physics'', ''warmup_factor''}
              \<and> ''momentum'' \<notin> dom losses
              \<and> ''momentum_clamped'' \<notin> dom losses
              \<and> losses ''total_physics'' = Some (Num 0))
       \<and> (\<forall>w. get_warmup_factor self = Inr w
            \<longrightarrow> compute_physics_losses self vel_init vel_pred n_nodes batch_size masses
                  = Inr (Num 0, [''total_physics'' \<mapsto> Num 0, ''warmup_factor'' \<mapsto> Num w]))
       \<and> (\<forall>e. get_warmup_factor self = Inl e
            \<longrightarrow> compute_physics_losses self vel_init vel_pred n_nodes batch_size masses
                  = Inl e)"
  using assms by (auto simp: compute_physics_losses_def Let_def split: sum.splits)

text \<open>
  With weight 0 and the warmup disabled the call returns the total 0 and the two keys,
  here on tensors that do not even fit the sizes given. With weight 0,
  \<^verbatim>\<open>warmup_epochs = 1\<close> and epoch \<open>10\<^sup>3\<^sup>0\<^sup>9\<close> it raises \<^verbatim>\<open>OverflowError\<close>.
\<close>

theorem compute_physics_losses_disabled_witness:
  "lambda_momentum (init 0 0 10) \<le> 0
   \<and> get_warmup_factor (init 0 0 10) = Inr 1
   \<and> compute_physics_losses (init 0 0 10) [(1, 0, 0)] [(2, 0, 0), (0, 1, 0)] 5 7 None
       = Inr (Num 0, [''total_physics'' \<mapsto> Num 0, ''warmup_factor'' \<mapsto> Num 1])
   \<and> dom [''total_physics'' \<mapsto> Num 0, ''warmup_factor'' \<mapsto> Num 1]
       = {''total_physics'', ''warmup_factor''}
   \<and> lambda_momentum (set_epoch (init 0 1 10) (10 ^ 309)) \<le> 0
   \<and> get_warmup_factor (set_epoch (init 0 1 10) (10 ^ 309)) = Inl OverflowError
   \<and> compute_physics_losses (set_epoch (init 0 1 10) (10 ^ 309))
        [(1, 0, 0)] [(2, 0, 0), (0, 1, 0)] 5 7 None = Inl OverflowError"
proof -
  let ?ok = "init 0 0 10" and ?big = "set_epoch (init 0 1 10) (10 ^ 309)"
  let ?vi = "[(1, 0, 0)] :: vec3 list" and ?vp = "[(2, 0, 0), (0, 1, 0)] :: vec3 list"
  let ?losses = "[''total_physics'' \<mapsto> Num 0, ''warmup_factor'' \<mapsto> Num 1]"
  have l1: "lambda_momentum ?ok \<le> 0" and l2: "lambda_momentum ?big \<le> 0"
    by (simp_all add: init_def set_epoch_def)
  have w1: "get_warmup_factor ?ok = Inr 1"
    by (simp add: warmup_defs)
  have w2: "get_warmup_factor ?big = Inl OverflowError"
    by (simp add: warmup_defs)
  from compute_physics_losses_disabled [OF l1, of ?vi ?vp 5 7 None] w1
  have r1: "compute_physics_losses ?ok ?vi ?vp 5 7 None = Inr (Num 0, ?losses)"
    by blast
  from compute_physics_losses_disabled [OF l2, of ?vi ?vp 5 7 None] w2
  have r2: "compute_physics_losses ?big ?vi ?vp 5 7 None = Inl OverflowError"
    by blast
  from compute_physics_losses_disabled [OF l1, of ?vi ?vp 5 7 None] r1
  have d: "dom ?losses = {''total_physics'', ''warmup_factor''}"
    by blast
  show ?thesis
    by (intro conjI l1 w1 r1 d l2 w2 r2)
qed

text \<open>
  Claim C3. When \<^verbatim>\<open>lambda_momentum > 0\<close> and \<^verbatim>\<open>compute_physics_losses\<close> returns,
  \<^verbatim>\<open>momentum_conservation_loss\<close> and \<^verbatim>\<open>get_warmup_factor()\<close> returned, and the total
  is \<^verbatim>\<open>lambda_momentum * momentum_loss_clamped * warmup_factor\<close>, where the clamped
  loss is the momentum loss clamped from above at
  \<^verbatim>\<open>max_physics_loss / max(lambda_momentum, 1e-6)\<close> and the warmup factor is what
  \<^verbatim>\<open>get_warmup_factor()\<close> returned at the current epoch.
\<close>

theorem compute_physics_losses_total:
  assumes "0 < lambda_momentum self"
    and "compute_physics_losses self vel_init vel_pred n_nodes batch_size masses
           = Inr (total_physics_loss, losses)"
  shows "\<exists>momentum_loss momentum_loss_clamped warmup_factor.
           momentum_conservation_loss vel_init vel_pred n_nodes batch_size masses
             = Inr momentum_loss
         \<and> get_warmup_factor self = Inr warmup_factor
         \<and> momentum_loss_clamped
             = clamp_max momentum_loss
                 (max_physics_loss self / max (lambda_momentum self) (1 / 10 ^ 6))
         \<and> total_physics_loss
             = fmul (fmul (Num (lambda_momentum self)) momentum_loss_clamped)
                 (Num warmup_factor)"
  using assms
  by (auto simp: compute_physics_losses_def Let_def fadd_zero split: sum.splits if_splits)

text \<open>
  One sample of two particles, the first predicted velocity off by \<open>(1, 0, 0)\<close>: the raw
  loss is \<open>1/5\<close>, under the ceiling 100; at epoch 1 of 4 the total is
  \<open>1/10 * 1/5 * 1/4 = 1/200\<close>.
\<close>

theorem compute_physics_losses_total_witness:
  "0 < lambda_momentum (set_epoch (init (1 / 10) 4 10) 1)
   \<and> fst (projr (compute_physics_losses (set_epoch (init (1 / 10) 4 10) 1)
        [(1, 0, 0), (0, 2, 0)] [(2, 0, 0), (0, 2, 0)] 2 1 None)) = Num (1 / 200)
   \<and> momentum_conservation_loss [(1, 0, 0), (0, 2, 0)] [(2, 0, 0), (0, 2, 0)] 2 1 None
       = Inr (Num (1 / 5))
   \<and> get_warmup_factor (set_epoch (init (1 / 10) 4 10) 1) = Inr (1 / 4)
   \<and> fmul (fmul (Num (1 / 10)) (clamp_max (Num (1 / 5)) (10 / max (1 / 10) (1 / 10 ^ 6))))
       (Num (1 / 4)) = Num (1 / 200)"
proof -
  let ?self = "set_epoch (init (1 / 10) 4 10) 1"
  let ?vi = "[(1, 0, 0), (0, 2, 0)] :: vec3 list"
  let ?vp = "[(2, 0, 0), (0, 2, 0)] :: vec3 list"
  have pos: "0 < lambda_momentum ?self"
    by (simp add: set_epoch_def init_def)
  have m: "momentum_conservation_loss ?vi ?vp 2 1 None = Inr (Num (1 / 5))"
    by (simp add: eval_defs)
  have w: "get_warmup_factor ?self = Inr (1 / 4)"
    by (simp add: warmup_defs)
  obtain t l where r: "compute_physics_losses ?self ?vi ?vp 2 1 None = Inr (t, l)"
    using pos m w by (simp add: compute_physics_losses_def Let_def)
  from compute_physics_losses_total [OF pos r]
  obtain ml wf where "momentum_conservation_loss ?vi ?vp 2 1 None = Inr ml"
    and "get_warmup_factor ?self = Inr wf"
    and tot: "t = fmul (fmul (Num (lambda_momentum ?self))
                (clamp_max ml (max_physics_loss ?self / max (lambda_momentum ?self) (1 / 10 ^ 6))))
              (Num wf)"
    by blast
  with m w have "ml = Num (1 / 5)" and "wf = 1 / 4"
    by simp_all
  with tot have t: "t = Num (1 / 200)"
    by (simp add: set_epoch_def init_def)
  have f: "fst (projr (compute_physics_losses ?self ?vi ?vp 2 1 None)) = Num (1 / 200)"
    by (simp add: r t)
  have c: "fmul (fmul (Num (1 / 10)) (clamp_max (Num (1 / 5)) (10 / max (1 / 10) (1 / 10 ^ 6))))
       (Num (1 / 4)) = Num (1 / 200)"
    by simp
  show ?thesis
    by (intro conjI pos f m w c)
qed

lemma clamp_bound:
  fixes lam M x :: real
  assumes "0 < lam" and "0 \<le> M \<or> 1 / 10 ^ 6 \<le> lam"
  shows "lam * min x (M / max lam (1 / 10 ^ 6)) \<le> M"
proof -
  have "lam * min x (M / max lam (1 / 10 ^ 6)) \<le> lam * (M / max lam (1 / 10 ^ 6))"
    using assms(1) by (intro mult_left_mono) simp_all
  also have "\<dots> \<le> M"
  proof (cases "1 / 10 ^ 6 \<le> lam")
    case True
    then have "max lam (1 / 10 ^ 6) = lam" by simp
    with assms(1) show ?thesis by simp
  next
    case False
    with assms(2) have M: "0 \<le> M" and lt: "lam < 1 / 10 ^ 6" by simp_all
    then have "max lam (1 / 10 ^ 6) = 1 / 10 ^ 6" by simp
    moreover have "lam * (M * 10 ^ 6) \<le> M"
    proof -
      have "lam * 10 ^ 6 \<le> 1" using lt by simp
      then have "(lam * 10 ^ 6) * M \<le> 1 * M" using M by (rule mult_right_mono)
      then show ?thesis by (simp add: mult_ac)
    qed
    ultimately show ?thesis by simp
  qed
  finally show ?thesis .
qed

lemma compute_physics_losses_enabled:
  assumes "0 < lambda_momentum self"
    and "compute_physics_losses self vel_init vel_pred n_nodes batch_size masses
           = Inr (total_physics_loss, losses)"
  shows "\<exists>momentum_loss.
           momentum_conservation_loss vel_init vel_pred n_nodes batch_size masses
             = Inr momentum_loss
         \<and> losses ''momentum'' = Some momentum_loss
         \<and> losses ''momentum_clamped''
             = Some (clamp_max momentum_loss
                 (max_physics_loss self / max (lambda_momentum self) (1 / 10 ^ 6)))"
  using assms
  by (auto simp: compute_physics_losses_def Let_def split: sum.splits if_splits)

text \<open>
  Claim C2, as amended. When \<^verbatim>\<open>lambda_momentum > 0\<close>, the call returns, the raw
  momentum loss in the breakdown is a number (the batch is not empty), and
  \<^verbatim>\<open>max_physics_loss >= 0\<close> or \<^verbatim>\<open>lambda_momentum >= 1e-6\<close>, the clamped loss is a
  number and \<^verbatim>\<open>lambda_momentum * momentum_loss_clamped <= max_physics_loss\<close>, however
  large the raw loss is.
\<close>

theorem clamped_momentum_bound:
  assumes "0 < lambda_momentum self"
    and "0 \<le> max_physics_loss self \<or> 1 / 10 ^ 6 \<le> lambda_momentum self"
    and "compute_physics_losses self vel_init vel_pred n_nodes batch_size masses
           = Inr (total_physics_loss, losses)"
    and "losses ''momentum'' = Some (Num x)"
  shows "\<exists>c. losses ''momentum_clamped'' = Some (Num c)
           \<and> fle (fmul (Num (lambda_momentum self)) (Num c)) (Num (max_physics_loss self))"
proof -
  from compute_physics_losses_enabled [OF assms(1,3)] assms(4)
  have "losses ''momentum_clamped''
          = Some (Num (min x (max_physics_loss self / max (lambda_momentum self) (1 / 10 ^ 6))))"
    by auto
  with clamp_bound [OF assms(1,2), of x] show ?thesis by simp
qed

text \<open>
  One particle with initial velocity \<open>(1/1000, 0, 0)\<close> predicted as \<open>(1, 0, 0)\<close>: the raw
  loss is \<open>998001\<close>, the ceiling \<open>10 / (1/10) = 100\<close>, and the weighted clamped loss is
  10, the cap.
\<close>

theorem clamped_momentum_bound_witness:
  "0 < lambda_momentum (init (1 / 10) 0 10)
   \<and> (0 \<le> max_physics_loss (init (1 / 10) 0 10)
        \<or> 1 / 10 ^ 6 \<le> lambda_momentum (init (1 / 10) 0 10))
   \<and> compute_physics_losses (init (1 / 10) 0 10) [(1 / 1000, 0, 0)] [(1, 0, 0)] 1 1 None
       = Inr (Num 10,
           [''momentum'' \<mapsto> Num 998001, ''momentum_clamped'' \<mapsto> Num 100,
            ''total_physics'' \<mapsto> Num 10, ''warmup_factor'' \<mapsto> Num 1])
   \<and> fle (fmul (Num (lambda_momentum (init (1 / 10) 0 10))) (Num 100))
        (Num (max_physics_loss (init (1 / 10) 0 10)))"
proof -
  let ?self = "init (1 / 10) 0 10"
  let ?losses = "[''momentum'' \<mapsto> Num 998001, ''momentum_clamped'' \<mapsto> Num 100,
            ''total_physics'' \<mapsto> Num 10, ''warmup_factor'' \<mapsto> Num 1]"
  have pos: "0 < lambda_momentum ?self"
    by (simp add: init_def)
  have cap: "0 \<le> max_physics_loss ?self \<or> 1 / 10 ^ 6 \<le> lambda_momentum ?self"
    by (simp add: init_def)
  have run: "compute_physics_losses ?self [(1 / 1000, 0, 0)] [(1, 0, 0)] 1 1 None
               = Inr (Num 10, ?losses)"
    by (simp add: compute_physics_losses_def warmup_defs eval_defs power2_eq_square)
  have raw: "?losses ''momentum'' = Some (Num 998001)"
    by simp
  from clamped_momentum_bound [OF pos cap run raw]
  have "fle (fmul (Num (lambda_momentum ?self)) (Num 100)) (Num (max_physics_loss ?self))"
    by simp
  with pos cap run show ?thesis
    by blast
qed

text \<open>
  Claim C2 as stated is about every call that returns. With \<^verbatim>\<open>max_physics_loss = -1\<close>
  and \<^verbatim>\<open>lambda_momentum = 5e-7\<close> the ceiling is \<open>-1 / 10\<^sup>-\<^sup>6 = -1000000\<close>, the
  clamped loss is the ceiling, and \<open>5e-7 * -1000000 = -1/2\<close> is above \<open>-1\<close>. With an
  empty batch (\<^verbatim>\<open>batch_size = 0\<close>, tensors of shape \<open>(0, 3)\<close>) the raw and the clamped
  loss are NaN, and no comparison with NaN holds.
\<close>

theorem clamped_momentum_bound_fails:
  "compute_physics_losses (init (1 / 2000000) 0 (- 1)) [(1, 0, 0)] [(1, 0, 0)] 1 1 None
     = Inr (Num (- 1 / 2),
         [''momentum'' \<mapsto> Num 0, ''momentum_clamped'' \<mapsto> Num (- 1000000),
          ''total_physics'' \<mapsto> Num (- 1 / 2), ''warmup_factor'' \<mapsto> Num 1])
   \<and> \<not> fle (fmul (Num (1 / 2000000)) (Num (- 1000000))) (Num (- 1))
   \<and> compute_physics_losses (init (1 / 10) 0 10) [] [] 5 0 None
     = Inr (NaN,
         [''momentum'' \<mapsto> NaN, ''momentum_clamped'' \<mapsto> NaN,
          ''total_physics'' \<mapsto> NaN, ''warmup_factor'' \<mapsto> Num 1])
   \<and> \<not> fle (fmul (Num (1 / 10)) NaN) (Num 10)"
  by (simp add: compute_physics_losses_def warmup_defs eval_defs)

text \<open>
  Claim C10, as amended. When \<^verbatim>\<open>lambda_momentum > 0\<close>, the call returns and the raw
  momentum loss in the breakdown is a number (the batch is not empty),
  \<^verbatim>\<open>breakdown['momentum_clamped'] <= breakdown['momentum']\<close>, and the two are equal
  when the raw loss does not exceed \<^verbatim>\<open>max_physics_loss / max(lambda_momentum, 1e-6)\<close>.
\<close>

theorem clamped_le_raw:
  assumes "0 < lambda_momentum self"
    and "compute_physics_losses self vel_init vel_pred n_nodes batch_size masses
           = Inr (total_physics_loss, losses)"
    and "losses ''momentum'' = Some (Num x)"
  shows "\<exists>c. losses ''momentum_clamped'' = Some (Num c)
           \<and> fle (Num c) (Num x)
           \<and> (x \<le> max_physics_loss self / max (lambda_momentum self) (1 / 10 ^ 6)
                \<longrightarrow> feq (Num c) (Num x))"
  using compute_physics_losses_enabled [OF assms(1,2)] assms(3)
  by auto

text \<open>
  A raw loss of \<open>1/5\<close> under the ceiling 100 passes unchanged.
\<close>

theorem clamped_le_raw_witness:
  "0 < lambda_momentum (init (1 / 10) 0 10)
   \<and> compute_physics_losses (init (1 / 10) 0 10)
        [(1, 0, 0), (0, 2, 0)] [(2, 0, 0), (0, 2, 0)] 2 1 None
       = Inr (Num (1 / 50),
           [''momentum'' \<mapsto> Num (1 / 5), ''momentum_clamped'' \<mapsto> Num (1 / 5),
            ''total_physics'' \<mapsto> Num (1 / 50), ''warmup_factor'' \<mapsto> Num 1])
   \<and> 1 / 5 \<le> max_physics_loss (init (1 / 10) 0 10)
        / max (lambda_momentum (init (1 / 10) 0 10)) (1 / 10 ^ 6)
   \<and> fle (Num (1 / 5)) (Num (1 / 5)) \<and> feq (Num (1 / 5)) (Num (1 / 5))"
proof -
  let ?self = "init (1 / 10) 0 10"
  let ?losses = "[''momentum'' \<mapsto> Num (1 / 5), ''momentum_clamped'' \<mapsto> Num (1 / 5),
            ''total_physics'' \<mapsto> Num (1 / 50), ''warmup_factor'' \<mapsto> Num 1]"
  have pos: "0 < lambda_momentum ?self"
    by (simp add: init_def)
  have run: "compute_physics_losses ?self [(1, 0, 0), (0, 2, 0)] [(2, 0, 0), (0, 2, 0)] 2 1 None
               = Inr (Num (1 / 50), ?losses)"
    by (simp add: compute_physics_losses_def warmup_defs eval_defs)
  have raw: "?losses ''momentum'' = Some (Num (1 / 5))"
    by simp
  have under: "1 / 5 \<le> max_physics_loss ?self / max (lambda_momentum ?self) (1 / 10 ^ 6)"
    by (simp add: init_def)
  from clamped_le_raw [OF pos run raw] under
  have "fle (Num (1 / 5)) (Num (1 / 5)) \<and> feq (Num (1 / 5)) (Num (1 / 5))"
    by simp
  with pos run under show ?thesis
    by blast
qed

text \<open>
  Claim C10 as stated is about every call that returns. With an empty batch
  (\<^verbatim>\<open>batch_size = 0\<close>, tensors of shape \<open>(0, 3)\<close>) the call returns, both entries of the
  breakdown are NaN, and \<^verbatim>\<open>nan <= nan\<close> is false.
\<close>

theorem clamped_le_raw_fails_nan:
  "compute_physics_losses (init (1 / 10) 0 10) [] [] 5 0 None
     = Inr (NaN,
         [''momentum'' \<mapsto> NaN, ''momentum_clamped'' \<mapsto> NaN,
          ''total_physics'' \<mapsto> NaN, ''warmup_factor'' \<mapsto> Num 1])
   \<and> \<not> fle NaN NaN"
  by (simp add: compute_physics_losses_def warmup_defs eval_defs)

section \<open>Properties of the momentum functions\<close>

lemma bdim_same: "bdim x x = Some x"
  by (simp add: bdim_def)

lemma bdim_None_iff: "bdim x y = None \<longleftrightarrow> \<not> (y = x \<or> y = 1 \<or> x = 1)"
  by (auto simp: bdim_def)

lemma bidx_less: "bdim x y = Some d \<Longrightarrow> i < d \<Longrightarrow> bidx x i < x"
  by (auto simp: bdim_def bidx_def split: if_splits)

lemma bidx_same: "i < d \<Longrightarrow> bidx d i = i"
  by (auto simp: bidx_def)

lemma scale_one: "scale v 1 = v"
  by (cases v) auto

lemma sum_dim1_cong:
  assumes "\<And>i j. i < d0 \<Longrightarrow> j < d1 \<Longrightarrow> s i j = t i j"
  shows "sum_dim1 d0 d1 s = sum_dim1 d0 d1 t"
proof -
  have "vsum (map (s i) [0..<d1]) = vsum (map (t i) [0..<d1])" if "i < d0" for i
    using assms that by (intro arg_cong[where f=vsum] map_cong) simp_all
  then show ?thesis by (simp add: sum_dim1_def)
qed

text \<open>
  Claim C9. Without masses \<^verbatim>\<open>compute_linear_momentum\<close> returns what it returns with
  masses that are all 1 and have the per-particle shape: \<open>(b, n)\<close> for velocities of
  shape \<open>(b, n, 3)\<close>, and \<open>(n_total)\<close> for velocities of shape \<open>(n_total, 3)\<close>.
\<close>

theorem compute_linear_momentum_unit_masses:
  "compute_linear_momentum (Vel3 b n v) None
     = compute_linear_momentum (Vel3 b n v) (Some (Mass2 b n (\<lambda>i j. 1)))
   \<and> compute_linear_momentum (Vel2 vs) None
     = compute_linear_momentum (Vel2 vs) (Some (Mass1 (replicate (length vs) 1)))"
proof
  have "sum_dim1 b n (\<lambda>i j. scale (v (bidx b i) (bidx n j)) 1) = sum_dim1 b n v"
    by (rule sum_dim1_cong) (simp add: bidx_same scale_one)
  then show "compute_linear_momentum (Vel3 b n v) None
     = compute_linear_momentum (Vel3 b n v) (Some (Mass2 b n (\<lambda>i j. 1)))"
    by (simp add: compute_linear_momentum_def mul_unsqueeze_def bdim_same)
next
  have "map (\<lambda>j. scale (vs ! bidx (length vs) j) (replicate (length vs) 1 ! bidx (length vs) j))
          [0..<length vs] = map (\<lambda>j. vs ! j) [0..<length vs]"
    by (rule map_cong) (simp_all add: bidx_same scale_one)
  also have "\<dots> = vs" by (rule map_nth)
  finally show "compute_linear_momentum (Vel2 vs) None
     = compute_linear_momentum (Vel2 vs) (Some (Mass1 (replicate (length vs) 1)))"
    by (simp add: compute_linear_momentum_def mul_unsqueeze_def bdim_same)
qed

lemma view3_nat:
  "length vel = b * n \<Longrightarrow>
   view3 vel (int b) (int n) = Inr (Vel3 b n (\<lambda>i j. vel ! (i * n + j)))"
  by (simp add: view3_def Let_def)

lemma view3_nonneg:
  assumes "0 \<le> batch_size" and "0 \<le> n_nodes"
  shows "view3 vel batch_size n_nodes =
           (if int (length vel) = batch_size * n_nodes
            then Inr (Vel3 (nat batch_size) (nat n_nodes) (\<lambda>i j. vel ! (i * nat n_nodes + j)))
            else Inl (ShapeMismatch Reshape))"
  using assms by (auto simp: view3_def Let_def)

lemma view3_success_nonneg:
  assumes "view3 vel batch_size n_nodes = Inr t"
    and "int (length vel) = batch_size * n_nodes"
  shows "0 \<le> batch_size \<and> 0 \<le> n_nodes"
proof -
  from assms(1) have "- 1 \<le> batch_size" "- 1 \<le> n_nodes"
    by (auto simp: view3_def Let_def split: if_splits)
  moreover have False if "batch_size = - 1"
    using assms that by (auto simp: view3_def Let_def split: if_splits)
  moreover have False if "n_nodes = - 1"
    using assms that by (auto simp: view3_def Let_def split: if_splits)
  ultimately show ?thesis by force
qed

lemma mul_unsqueeze_sum_dim1_cong:
  assumes "\<And>i j. i < b \<Longrightarrow> j < n \<Longrightarrow> v i j = g i j"
  shows "(case mul_unsqueeze b n v r c f of Inl e \<Rightarrow> Inl e
          | Inr (d0, d1, t) \<Rightarrow> Inr (T1 (sum_dim1 d0 d1 t)))
       = (case mul_unsqueeze b n g r c f of Inl e \<Rightarrow> Inl e
          | Inr (d0, d1, t) \<Rightarrow> Inr (T1 (sum_dim1 d0 d1 t)))"
proof (cases "bdim b r")
  case None
  then show ?thesis by (simp add: mul_unsqueeze_def)
next
  case d0: (Some d0)
  show ?thesis
  proof (cases "bdim n c")
    case None
    then show ?thesis using d0 by (simp add: mul_unsqueeze_def)
  next
    case d1: (Some d1)
    have "sum_dim1 d0 d1 (\<lambda>i j. scale (v (bidx b i) (bidx n j)) (f (bidx r i) (bidx c j)))
        = sum_dim1 d0 d1 (\<lambda>i j. scale (g (bidx b i) (bidx n j)) (f (bidx r i) (bidx c j)))"
      by (rule sum_dim1_cong) (simp add: assms bidx_less [OF d0] bidx_less [OF d1])
    then show ?thesis using d0 d1 by (simp add: mul_unsqueeze_def)
  qed
qed

lemma compute_linear_momentum_cong:
  assumes "\<And>i j. i < b \<Longrightarrow> j < n \<Longrightarrow> v i j = g i j"
  shows "compute_linear_momentum (Vel3 b n v) masses = compute_linear_momentum (Vel3 b n g) masses"
proof (cases masses)
  case None
  have "sum_dim1 b n v = sum_dim1 b n g"
    by (rule sum_dim1_cong) (rule assms)
  with None show ?thesis by (simp add: compute_linear_momentum_def)
next
  case (Some mt)
  show ?thesis
  proof (cases mt)
    case (Mass1 ms)
    with Some mul_unsqueeze_sum_dim1_cong [of b n v g 1 "length ms" "\<lambda>i j. ms ! j", OF assms]
    show ?thesis by (simp add: compute_linear_momentum_def)
  next
    case (Mass2 r c f)
    with Some mul_unsqueeze_sum_dim1_cong [of b n v g r c f, OF assms]
    show ?thesis by (simp add: compute_linear_momentum_def)
  qed
qed

text \<open>
  Claim C7. For a flat array \<open>vel\<close> of shape \<open>(b * n, 3)\<close> and any masses or none,
  \<^verbatim>\<open>compute_linear_momentum_batched(vel, n, b, masses)\<close> is
  \<^verbatim>\<open>compute_linear_momentum\<close> of any tensor of shape \<open>(b, n, 3)\<close> that holds the same
  rows grouped: row \<open>j\<close> of group \<open>i\<close> is row \<open>i * n + j\<close> of \<open>vel\<close>. Both fail alike
  when the masses do not broadcast.
\<close>

theorem compute_linear_momentum_batched_reshape:
  assumes "length vel = b * n"
    and "\<forall>i<b. \<forall>j<n. g i j = vel ! (i * n + j)"
  shows "compute_linear_momentum_batched vel (int n) (int b) masses
           = compute_linear_momentum (Vel3 b n g) masses"
proof -
  have "compute_linear_momentum (Vel3 b n (\<lambda>i j. vel ! (i * n + j))) masses
      = compute_linear_momentum (Vel3 b n g) masses"
    by (rule compute_linear_momentum_cong) (simp add: assms(2))
  then show ?thesis
    by (simp add: compute_linear_momentum_batched_def view3_nat [OF assms(1)])
qed

text \<open>
  Two samples of two particles with masses \<open>1, 2\<close> and \<open>3, 4\<close>; the grouped tensor is
  given as nested rows.
\<close>

theorem compute_linear_momentum_batched_reshape_witness:
  "length [(1, 0, 0), (0, 2, 0), (0, 0, 3), (1, 1, 1) :: vec3] = 2 * 2
   \<and> ([[(1, 0, 0), (0, 2, 0)], [(0, 0, 3), (1, 1, 1)]] :: vec3 list list) ! 0 ! 0
       = [(1, 0, 0), (0, 2, 0), (0, 0, 3), (1, 1, 1)] ! (0 * 2 + 0)
   \<and> ([[(1, 0, 0), (0, 2, 0)], [(0, 0, 3), (1, 1, 1)]] :: vec3 list list) ! 0 ! 1
       = [(1, 0, 0), (0, 2, 0), (0, 0, 3), (1, 1, 1)] ! (0 * 2 + 1)
   \<and> ([[(1, 0, 0), (0, 2, 0)], [(0, 0, 3), (1, 1, 1)]] :: vec3 list list) ! 1 ! 0
       = [(1, 0, 0), (0, 2, 0), (0, 0, 3), (1, 1, 1)] ! (1 * 2 + 0)
   \<and> ([[(1, 0, 0), (0, 2, 0)], [(0, 0, 3), (1, 1, 1)]] :: vec3 list list) ! 1 ! 1
       = [(1, 0, 0), (0, 2, 0), (0, 0, 3), (1, 1, 1)] ! (1 * 2 + 1)
   \<and> compute_linear_momentum_batched [(1, 0, 0), (0, 2, 0), (0, 0, 3), (1, 1, 1)] 2 2
        (Some (Mass2 2 2 (\<lambda>i j. [[1, 2], [3, 4]] ! i ! j)))
       = Inr (T1 [(1, 4, 0), (4, 4, 13)])
   \<and> compute_linear_momentum
        (Vel3 2 2 (\<lambda>i j. [[(1, 0, 0), (0, 2, 0)], [(0, 0, 3), (1, 1, 1)]] ! i ! j))
        (Some (Mass2 2 2 (\<lambda>i j. [[1, 2], [3, 4]] ! i ! j)))
       = Inr (T1 [(1, 4, 0), (4, 4, 13)])"
proof -
  let ?vel = "[(1, 0, 0), (0, 2, 0), (0, 0, 3), (1, 1, 1)] :: vec3 list"
  let ?g = "\<lambda>i j. ([[(1, 0, 0), (0, 2, 0)], [(0, 0, 3), (1, 1, 1)]] :: vec3 list list) ! i ! j"
  let ?masses = "Some (Mass2 2 2 (\<lambda>i j. [[1, 2], [3, 4]] ! i ! j))"
  have len: "length ?vel = 2 * 2"
    by simp
  have g00: "?g 0 0 = ?vel ! (0 * 2 + 0)" and g01: "?g 0 1 = ?vel ! (0 * 2 + 1)"
    and g10: "?g 1 0 = ?vel ! (1 * 2 + 0)" and g11: "?g 1 1 = ?vel ! (1 * 2 + 1)"
    by simp_all
  have grp: "\<forall>i<2. \<forall>j<2. ?g i j = ?vel ! (i * 2 + j)"
    by (simp add: less_2_cases_iff)
  have run: "compute_linear_momentum_batched ?vel 2 2 ?masses = Inr (T1 [(1, 4, 0), (4, 4, 13)])"
    by (simp add: eval_defs)
  have "compute_linear_momentum_batched ?vel (int 2) (int 2) ?masses
          = compute_linear_momentum (Vel3 2 2 ?g) ?masses"
    by (rule compute_linear_momentum_batched_reshape [OF len grp])
  then have eq: "compute_linear_momentum (Vel3 2 2 ?g) ?masses
          = compute_linear_momentum_batched ?vel 2 2 ?masses"
    by (simp only: of_nat_numeral)
  have res: "compute_linear_momentum (Vel3 2 2 ?g) ?masses = Inr (T1 [(1, 4, 0), (4, 4, 13)])"
    by (simp only: eq run)
  show ?thesis
    by (intro conjI len g00 g01 g10 g11 run res)
qed

lemma mul_unsqueeze_Inl_iff:
  "mul_unsqueeze b n v r c m = Inl e \<longleftrightarrow>
     e = ShapeMismatch Broadcast \<and> \<not> ((r = b \<or> r = 1 \<or> b = 1) \<and> (c = n \<or> c = 1 \<or> n = 1))"
  by (cases "bdim b r"; cases "bdim n c")
     (auto simp: mul_unsqueeze_def bdim_def split: if_splits)

lemma compute_linear_momentum_Inl_iff:
  "compute_linear_momentum (Vel3 b n v) masses = Inl e \<longleftrightarrow>
     e = ShapeMismatch Broadcast \<and> \<not> masses_fit b n masses"
proof (cases masses)
  case None
  then show ?thesis by (simp add: compute_linear_momentum_def masses_fit_def)
next
  case (Some mt)
  show ?thesis
  proof (cases mt)
    case (Mass1 ms)
    with Some mul_unsqueeze_Inl_iff [of b n v 1 "length ms" "\<lambda>i j. ms ! j" e]
    show ?thesis
      by (auto simp: compute_linear_momentum_def masses_fit_def split: sum.splits)
  next
    case (Mass2 r c m)
    with Some mul_unsqueeze_Inl_iff [of b n v r c m e]
    show ?thesis
      by (auto simp: compute_linear_momentum_def masses_fit_def split: sum.splits)
  qed
qed

text \<open>
  Claim C6, as amended. For \<^verbatim>\<open>batch_size >= 0\<close> and \<^verbatim>\<open>n_nodes >= 0\<close>,
  \<^verbatim>\<open>compute_linear_momentum_batched\<close> fails in the reshape if and only if the number
  of rows of \<open>vel\<close> differs from \<^verbatim>\<open>batch_size * n_nodes\<close>; it fails in the broadcast
  if and only if the rows fit and the masses do not broadcast against
  \<open>(batch_size, n_nodes, 3)\<close>; it fails in no other way. An error of the reshape is the
  error of the call, and after a reshape that succeeds the call is
  \<^verbatim>\<open>compute_linear_momentum\<close> of the reshaped tensor, error or not.
\<close>

theorem compute_linear_momentum_batched_failure:
  assumes "0 \<le> batch_size" and "0 \<le> n_nodes"
  shows "(compute_linear_momentum_batched vel n_nodes batch_size masses
            = Inl (ShapeMismatch Reshape)
          \<longleftrightarrow> int (length vel) \<noteq> batch_size * n_nodes)
       \<and> (compute_linear_momentum_batched vel n_nodes batch_size masses
            = Inl (ShapeMismatch Broadcast)
          \<longleftrightarrow> int (length vel) = batch_size * n_nodes
              \<and> \<not> masses_fit (nat batch_size) (nat n_nodes) masses)
       \<and> (\<forall>e. view3 vel batch_size n_nodes = Inl e
            \<longrightarrow> compute_linear_momentum_batched vel n_nodes batch_size masses = Inl e)
       \<and> (\<forall>t. view3 vel batch_size n_nodes = Inr t
            \<longrightarrow> compute_linear_momentum_batched vel n_nodes batch_size masses
                  = compute_linear_momentum t masses)"
  by (simp add: compute_linear_momentum_batched_def view3_nonneg [OF assms]
      compute_linear_momentum_Inl_iff)

text \<open>
  Three rows do not reshape to one sample of two particles; two rows do, and the call
  returns their sum.
\<close>

theorem compute_linear_momentum_batched_failure_witness:
  "(0 :: int) \<le> 1 \<and> (0 :: int) \<le> 2
   \<and> int (length [(1, 0, 0), (0, 2, 0), (0, 0, 3) :: vec3]) \<noteq> 1 * 2
   \<and> view3 [(1, 0, 0), (0, 2, 0), (0, 0, 3)] 1 2 = Inl (ShapeMismatch Reshape)
   \<and> compute_linear_momentum_batched [(1, 0, 0), (0, 2, 0), (0, 0, 3)] 2 1 None
       = Inl (ShapeMismatch Reshape)
   \<and> int (length [(1, 0, 0), (0, 2, 0) :: vec3]) = 1 * 2
   \<and> masses_fit (nat 1) (nat 2) None
   \<and> compute_linear_momentum_batched [(1, 0, 0), (0, 2, 0)] 2 1 None = Inr (T1 [(1, 2, 0)])"
proof -
  have b: "(0 :: int) \<le> 1" and n: "(0 :: int) \<le> 2"
    by simp_all
  have v3: "view3 [(1, 0, 0), (0, 2, 0), (0, 0, 3)] 1 2 = Inl (ShapeMismatch Reshape)"
    by (simp add: view3_def)
  from compute_linear_momentum_batched_failure
    [OF b n, of "[(1, 0, 0), (0, 2, 0), (0, 0, 3)]" None] v3
  have bad: "compute_linear_momentum_batched [(1, 0, 0), (0, 2, 0), (0, 0, 3)] 2 1 None
               = Inl (ShapeMismatch Reshape)"
    by simp
  have good: "compute_linear_momentum_batched [(1, 0, 0), (0, 2, 0)] 2 1 None
                = Inr (T1 [(1, 2, 0)])"
    by (simp add: eval_defs)
  have fit: "masses_fit (nat 1) (nat 2) None"
    by (simp add: masses_fit_def)
  from b n v3 bad good fit show ?thesis
    by simp
qed

text \<open>
  Claim C6 as stated has the call fail exactly when the rows differ from
  \<^verbatim>\<open>batch_size * n_nodes\<close>. Two rows with \<^verbatim>\<open>batch_size = 1\<close>, \<^verbatim>\<open>n_nodes = 2\<close> fit, and
  the call fails all the same when the masses have shape \<open>(1, 3)\<close>: the product with
  \<open>(1, 2, 3)\<close> does not broadcast. Three rows with \<^verbatim>\<open>batch_size = -1\<close>, \<^verbatim>\<open>n_nodes = 1\<close>
  differ from \<open>-1 * 1\<close>, and the call succeeds: the reshape infers 3 samples.
\<close>

theorem compute_linear_momentum_batched_failure_not_iff_rows:
  "int (length [(0, 0, 0), (0, 0, 0) :: vec3]) = 1 * 2
   \<and> compute_linear_momentum_batched [(0, 0, 0), (0, 0, 0)] 2 1 (Some (Mass2 1 3 (\<lambda>i j. 1)))
       = Inl (ShapeMismatch Broadcast)
   \<and> int (length [(1, 0, 0), (0, 2, 0), (0, 0, 3) :: vec3]) \<noteq> (- 1) * 1
   \<and> compute_linear_momentum_batched [(1, 0, 0), (0, 2, 0), (0, 0, 3)] 1 (- 1) None
       = Inr (T1 [(1, 0, 0), (0, 2, 0), (0, 0, 3)])"
  by (simp add: eval_defs)

section \<open>Properties of the loss\<close>

lemma component_vadd: "component k (vadd p q) = component k p + component k q"
  by (cases p; cases q) (simp add: component_def)

lemma component_vsub: "component k (vsub p q) = component k p - component k q"
  by (cases p; cases q) (simp add: component_def)

lemma component_scale: "component k (scale p m) = component k p * m"
  by (cases p) (simp add: component_def)

lemma component_vzero: "component k vzero = 0"
  by (simp add: component_def vzero_def)

lemma component_vsum: "component k (vsum ps) = sum_list (map (component k) ps)"
  by (induction ps) (simp_all add: component_vadd component_vzero)

lemma sum_list_upt: "sum_list (map f [0..<n]) = (\<Sum>j<n. f j)" for f :: "nat \<Rightarrow> real"
  by (simp add: interv_sum_list_conv_sum_set_nat atLeast0LessThan)

lemma sumsq_components: "sumsq p = (\<Sum>k<3. (component k p) ^ 2)"
  by (cases p) (simp add: component_def numeral_3_eq_3)

lemma map2_same: "map2 f (map g xs) (map h xs) = map (\<lambda>x. f (g x) (h x)) xs"
  by (induction xs) simp_all


lemma bdim_keep: "y = x \<or> y = 1 \<Longrightarrow> bdim x y = Some x"
  by (auto simp: bdim_def)

lemma mass_of_Mass1: "mass_of (Some (Mass1 ms)) i j = ms ! bidx (length ms) j"
  by (simp add: mass_of_def bidx_def)

lemma mass_of_Mass2: "mass_of (Some (Mass2 r c m)) i j = m (bidx r i) (bidx c j)"
  by (simp add: mass_of_def bidx_def)

lemma batched_weighted_sums:
  assumes "length vel = b * n" and "masses_per_particle b n masses"
  shows "compute_linear_momentum_batched vel (int n) (int b) masses
           = Inr (T1 (map (weighted_sums (mass_of masses) vel n) [0..<b]))"
proof (cases masses)
  case None
  have "sum_dim1 b n (\<lambda>i j. vel ! (i * n + j)) = map (weighted_sums (mass_of None) vel n) [0..<b]"
    by (simp add: sum_dim1_def weighted_sums_def mass_of_def scale_one)
  with None show ?thesis
    by (simp add: compute_linear_momentum_batched_def view3_nat [OF assms(1)]
        compute_linear_momentum_def)
next
  case (Some mt)
  show ?thesis
  proof (cases mt)
    case (Mass1 ms)
    with Some assms(2) have k: "length ms = n \<or> length ms = 1"
      by (simp add: masses_per_particle_def)
    have "sum_dim1 b n (\<lambda>i j. scale (vel ! (bidx b i * n + bidx n j)) (ms ! bidx (length ms) j))
        = sum_dim1 b n (\<lambda>i j. scale (vel ! (i * n + j)) (mass_of masses i j))"
      by (rule sum_dim1_cong) (simp add: bidx_same Some Mass1 mass_of_Mass1)
    also have "\<dots> = map (weighted_sums (mass_of masses) vel n) [0..<b]"
      by (simp add: sum_dim1_def weighted_sums_def)
    finally show ?thesis using Some Mass1
      by (simp add: compute_linear_momentum_batched_def view3_nat [OF assms(1)]
          compute_linear_momentum_def mul_unsqueeze_def bdim_keep [OF k] bdim_keep)
  next
    case (Mass2 r c m)
    with Some assms(2) have r: "r = b \<or> r = 1" and c: "c = n \<or> c = 1"
      by (simp_all add: masses_per_particle_def)
    have "sum_dim1 b n (\<lambda>i j. scale (vel ! (bidx b i * n + bidx n j)) (m (bidx r i) (bidx c j)))
        = sum_dim1 b n (\<lambda>i j. scale (vel ! (i * n + j)) (mass_of masses i j))"
      by (rule sum_dim1_cong) (simp add: bidx_same Some Mass2 mass_of_Mass2)
    also have "\<dots> = map (weighted_sums (mass_of masses) vel n) [0..<b]"
      by (simp add: sum_dim1_def weighted_sums_def)
    finally show ?thesis using Some Mass2
      by (simp add: compute_linear_momentum_batched_def view3_nat [OF assms(1)]
          compute_linear_momentum_def mul_unsqueeze_def bdim_keep [OF r] bdim_keep [OF c])
  qed
qed

lemma component_weighted_sums:
  "component k (weighted_sums mass vel n i) = spec_momentum mass vel n i k"
  by (simp add: weighted_sums_def component_vsum comp_def component_scale sum_list_upt
      spec_momentum_def mult.commute)

lemma sample_loss_eq:
  "sumsq (vsub (weighted_sums mass vp n i) (weighted_sums mass vi n i))
     / max (sumsq (weighted_sums mass vi n i)) (1 / 10 ^ 6)
   = spec_sample_loss mass vi vp n i"
  by (simp only: sumsq_components component_vsub component_weighted_sums spec_sample_loss_def)

lemma momentum_conservation_loss_nat:
  assumes "length vel_init = b * n" and "length vel_pred = b * n"
    and "masses_per_particle b n masses"
  shows "momentum_conservation_loss vel_init vel_pred (int n) (int b) masses
           = Inr (spec_loss (mass_of masses) vel_init vel_pred n b)"
proof -
  let ?Pi = "weighted_sums (mass_of masses) vel_init n"
    and ?Pp = "weighted_sums (mass_of masses) vel_pred n"
  have "momentum_conservation_loss vel_init vel_pred (int n) (int b) masses
      = Inr (mean (T1 (map (\<lambda>i. sumsq (vsub (?Pp i) (?Pi i)) / max (sumsq (?Pi i)) (1 / 10 ^ 6))
                 [0..<b])))"
    by (simp add: momentum_conservation_loss_def batched_weighted_sums [OF assms(1,3)]
        batched_weighted_sums [OF assms(2,3)] bzip_def map2_same Let_def comp_def)
  also have "\<dots> = Inr (spec_loss (mass_of masses) vel_init vel_pred n b)"
    by (simp only: sample_loss_eq) (simp add: spec_loss_def sum_list_upt)
  finally show ?thesis .
qed

text \<open>
  Claim C1, as amended. For \<open>vel_init\<close> and \<open>vel_pred\<close> of shape
  \<open>(batch_size * n_nodes, 3)\<close> that reshape, and masses that are absent or give one
  mass to each particle (masses whose broadcast against \<open>(batch_size, n_nodes, 3)\<close>
  keeps that shape: \<open>(n_nodes)\<close>, \<open>(1)\<close>, or \<open>(r, c)\<close> with \<open>r\<close> equal to
  \<open>batch_size\<close> or 1 and \<open>c\<close> equal to \<open>n_nodes\<close> or 1),
  \<^verbatim>\<open>momentum_conservation_loss\<close> returns the mean over the batch of
  \<open>sum((P_pred - P_init)\<^sup>2) / max(sum(P_init\<^sup>2), 10\<^sup>-\<^sup>6)\<close>, with \<open>P_init\<close> and \<open>P_pred\<close> the
  mass-weighted momentum sums of each sample: the tensor operations compute the
  formula \<open>spec_loss\<close>, in the same arithmetic.
\<close>

theorem momentum_conservation_loss_formula:
  assumes "int (length vel_init) = batch_size * n_nodes"
    and "int (length vel_pred) = batch_size * n_nodes"
    and "view3 vel_init batch_size n_nodes = Inr t_init"
    and "view3 vel_pred batch_size n_nodes = Inr t_pred"
    and "masses_per_particle (nat batch_size) (nat n_nodes) masses"
  shows "momentum_conservation_loss vel_init vel_pred n_nodes batch_size masses
         = Inr (spec_loss (mass_of masses) vel_init vel_pred (nat n_nodes) (nat batch_size))"
proof -
  define b n where "b = nat batch_size" and "n = nat n_nodes"
  from view3_success_nonneg [OF assms(3,1)]
  have bn: "batch_size = int b" "n_nodes = int n"
    by (simp_all add: b_def n_def)
  from assms(1,2) have "int (length vel_init) = int (b * n)" "int (length vel_pred) = int (b * n)"
    by (simp_all add: bn)
  then have len: "length vel_init = b * n" "length vel_pred = b * n"
    by (simp_all only: of_nat_eq_iff)
  from assms(5) have "masses_per_particle b n masses"
    by (simp add: b_def n_def)
  from momentum_conservation_loss_nat [OF len this] show ?thesis
    by (simp add: bn)
qed

text \<open>
  Two samples of two particles; the masses \<open>2, 3\<close> of shape \<open>(n_nodes)\<close> are those of
  the two particles of every sample. The first predicted velocity is off by
  \<open>(1, 0, 0)\<close>: the first sample has \<open>P_init = (2, 6, 0)\<close>, \<open>P_pred = (4, 6, 0)\<close> and loss
  \<open>4 / 40\<close>, the second sample has loss 0, and the mean is \<open>1/20\<close>.
\<close>

theorem momentum_conservation_loss_formula_witness:
  "int (length [(1, 0, 0), (0, 2, 0), (0, 0, 3), (1, 1, 1) :: vec3]) = 2 * 2
   \<and> int (length [(2, 0, 0), (0, 2, 0), (0, 0, 3), (1, 1, 1) :: vec3]) = 2 * 2
   \<and> view3 [(1, 0, 0), (0, 2, 0), (0, 0, 3), (1, 1, 1)] 2 2
       = Inr (Vel3 2 2 (\<lambda>i j. [(1, 0, 0), (0, 2, 0), (0, 0, 3), (1, 1, 1)] ! (i * 2 + j)))
   \<and> view3 [(2, 0, 0), (0, 2, 0), (0, 0, 3), (1, 1, 1)] 2 2
       = Inr (Vel3 2 2 (\<lambda>i j. [(2, 0, 0), (0, 2, 0), (0, 0, 3), (1, 1, 1)] ! (i * 2 + j)))
   \<and> masses_per_particle (nat 2) (nat 2) (Some (Mass1 [2, 3]))
   \<and> momentum_conservation_loss [(1, 0, 0), (0, 2, 0), (0, 0, 3), (1, 1, 1)]
        [(2, 0, 0), (0, 2, 0), (0, 0, 3), (1, 1, 1)] 2 2 (Some (Mass1 [2, 3]))
       = Inr (Num (1 / 20))
   \<and> spec_loss (mass_of (Some (Mass1 [2, 3]))) [(1, 0, 0), (0, 2, 0), (0, 0, 3), (1, 1, 1)]
        [(2, 0, 0), (0, 2, 0), (0, 0, 3), (1, 1, 1)] 2 2 = Num (1 / 20)"
proof -
  let ?vi = "[(1, 0, 0), (0, 2, 0), (0, 0, 3), (1, 1, 1)] :: vec3 list"
  let ?vp = "[(2, 0, 0), (0, 2, 0), (0, 0, 3), (1, 1, 1)] :: vec3 list"
  let ?masses = "Some (Mass1 [2, 3])"
  have li: "int (length ?vi) = 2 * 2" and lp: "int (length ?vp) = 2 * 2"
    by simp_all
  have ri: "view3 ?vi 2 2 = Inr (Vel3 2 2 (\<lambda>i j. ?vi ! (i * 2 + j)))"
    and rp: "view3 ?vp 2 2 = Inr (Vel3 2 2 (\<lambda>i j. ?vp ! (i * 2 + j)))"
    by (simp_all add: view3_def)
  have mp: "masses_per_particle (nat 2) (nat 2) ?masses"
    by (simp add: masses_per_particle_def)
  have spec: "spec_loss (mass_of ?masses) ?vi ?vp 2 2 = Num (1 / 20)"
    by (simp add: spec_loss_def spec_sample_loss_def spec_momentum_def component_def
        mass_of_def lessThan_Suc numeral_2_eq_2 numeral_3_eq_3)
  have "momentum_conservation_loss ?vi ?vp 2 2 ?masses
        = Inr (spec_loss (mass_of ?masses) ?vi ?vp (nat 2) (nat 2))"
    by (rule momentum_conservation_loss_formula [OF li lp ri rp mp])
  then have run: "momentum_conservation_loss ?vi ?vp 2 2 ?masses = Inr (Num (1 / 20))"
    by (simp add: spec)
  show ?thesis
    by (intro conjI li lp ri rp mp run spec)
qed

text \<open>
  Claim C1 as stated takes any masses. Four rows reshape to two samples of two
  particles, and with the four masses given flat, one per row, the product with
  \<open>(2, 2, 3)\<close> does not broadcast: the call raises. Two rows reshape to one sample of two
  particles, and with masses of shape \<open>(2, 1)\<close> the product has two rows: the call
  returns the mean \<open>2500000\<close> of their losses \<open>1000000\<close> and \<open>4000000\<close>, where the one
  sample of the batch has the loss \<open>1000000\<close> under the first row of masses.
\<close>

theorem momentum_conservation_loss_formula_fails:
  "view3 [(1, 0, 0), (0, 2, 0), (0, 0, 3), (1, 1, 1)] 2 2
     = Inr (Vel3 2 2 (\<lambda>i j. [(1, 0, 0), (0, 2, 0), (0, 0, 3), (1, 1, 1)] ! (i * 2 + j)))
   \<and> momentum_conservation_loss [(1, 0, 0), (0, 2, 0), (0, 0, 3), (1, 1, 1)]
        [(1, 0, 0), (0, 2, 0), (0, 0, 3), (1, 1, 1)] 2 2 (Some (Mass1 [1, 1, 1, 1]))
       = Inl (ShapeMismatch Broadcast)
   \<and> view3 [(1, 0, 0), (- 1, 0, 0)] 1 2
       = Inr (Vel3 1 2 (\<lambda>i j. [(1, 0, 0), (- 1, 0, 0)] ! (i * 2 + j)))
   \<and> momentum_conservation_loss [(1, 0, 0), (- 1, 0, 0)] [(2, 0, 0), (- 1, 0, 0)] 2 1
        (Some (Mass2 2 1 (\<lambda>i j. [[1], [2]] ! i ! j))) = Inr (Num 2500000)
   \<and> spec_loss (mass_of (Some (Mass2 2 1 (\<lambda>i j. [[1], [2]] ! i ! j))))
        [(1, 0, 0), (- 1, 0, 0)] [(2, 0, 0), (- 1, 0, 0)] 2 1 = Num 1000000"
  by (simp add: eval_defs spec_loss_def spec_sample_loss_def spec_momentum_def component_def
      mass_of_def lessThan_Suc numeral_2_eq_2 numeral_3_eq_3)






end
